theory Spec2Isabelle
  imports Complex_Main "HOL-Library.Char_ord" "HOL-Library.List_Lexorder" "HOL-Library.Sublist"
begin

section \<open>The stacks service of Bodhi (\<^verbatim>\<open>bodhi/services/stacks.py\<close>)\<close>

text \<open>
  The service has four views: \<^verbatim>\<open>get_stack\<close>, \<^verbatim>\<open>query_stacks\<close>, \<^verbatim>\<open>save_stack\<close> and
  \<^verbatim>\<open>delete_stack\<close>. Each view reads \<^verbatim>\<open>request.validated\<close>, \<^verbatim>\<open>request.user\<close> and
  \<^verbatim>\<open>request.db\<close>. The model passes these three as explicit arguments and returns the
  changed state next to the response. Calls to \<^verbatim>\<open>log\<close> have no effect on anything the
  views return or store and are left out.
\<close>

subsection \<open>Entities\<close>

text \<open>
  \<^verbatim>\<open>Package\<close>, \<^verbatim>\<open>Group\<close>, \<^verbatim>\<open>User\<close> and \<^verbatim>\<open>Stack\<close> are the mapped classes of
  \<^verbatim>\<open>bodhi.models\<close>. The views read \<^verbatim>\<open>Package.name\<close>, \<^verbatim>\<open>user.name\<close>, \<^verbatim>\<open>user.groups\<close>,
  \<^verbatim>\<open>stack.name\<close>, \<^verbatim>\<open>stack.description\<close>, \<^verbatim>\<open>stack.packages\<close>, \<^verbatim>\<open>stack.users\<close> and
  \<^verbatim>\<open>stack.groups\<close>; the records below have exactly these fields. Python's \<^verbatim>\<open>in\<close> on a
  list of mapped objects compares objects; one object stands for one row, so the model
  compares the values of the rows.
\<close>

datatype package = Package (package_name: string)

datatype group = Group (group_name: string)

record user =
  user_name :: string
  user_groups :: "group list"

record stack =
  stack_name :: string
  stack_description :: "string option"
  stack_packages :: "package list"
  stack_users :: "user list"
  stack_groups :: "group list"

subsection \<open>Request state and effects\<close>

text \<open>
  \<^verbatim>\<open>request.db\<close> holds the rows of the stacks table. The calls that reach outside the
  view (\<^verbatim>\<open>db.add\<close>, \<^verbatim>\<open>db.flush\<close>, \<^verbatim>\<open>db.delete\<close>, \<^verbatim>\<open>notifications.publish\<close>) are
  recorded, in the order they happen, in \<open>trace\<close>. A published message carries the stack
  as it is at the moment of the call.
\<close>

datatype effect =
    DbAdd stack
  | DbFlush
  | DbDelete stack
  | Publish string stack

record state =
  db :: "stack list"
  trace :: "effect list"

datatype error =
    HTTPForbidden (err_location: string) (err_name: string) (err_description: string)
  | ZeroDivisionError
  | OverflowError
  | DBAPIError string

definition db_add :: "stack \<Rightarrow> state \<Rightarrow> state" where
  "db_add st s = s\<lparr>db := db s @ [st], trace := trace s @ [DbAdd st]\<rparr>"

definition db_flush :: "state \<Rightarrow> state" where
  "db_flush s = s\<lparr>trace := trace s @ [DbFlush]\<rparr>"

definition db_delete :: "stack \<Rightarrow> state \<Rightarrow> state" where
  "db_delete st s = s\<lparr>db := remove1 st (db s), trace := trace s @ [DbDelete st]\<rparr>"

definition publish :: "string \<Rightarrow> stack \<Rightarrow> state \<Rightarrow> state" where
  "publish topic st s = s\<lparr>trace := trace s @ [Publish topic st]\<rparr>"

text \<open>
  Modelled from the spec: \<^verbatim>\<open>Stack.get\<close> is a class method of \<^verbatim>\<open>bodhi.models\<close>, which is
  not part of the sources at hand. The specification says that it looks the stack up by
  its exact name and yields nothing when there is none.
\<close>

definition Stack_get :: "string \<Rightarrow> stack list \<Rightarrow> stack option" where
  "Stack_get n rows = find (\<lambda>st. stack_name st = n) rows"

text \<open>
  The object that \<^verbatim>\<open>Stack.get\<close> returns is the row itself: an assignment to one of its
  attributes changes the stored row. \<open>store\<close> writes the changed object back in the place
  of the row that was fetched under the name \<open>n\<close>.
\<close>

fun store :: "string \<Rightarrow> stack \<Rightarrow> stack list \<Rightarrow> stack list" where
  "store n st [] = []"
| "store n st (x # xs) = (if stack_name x = n then st # xs else x # store n st xs)"

subsection \<open>\<^verbatim>\<open>save_stack\<close>\<close>

record save_data =
  data_name :: string
  data_description :: "string option"
  data_packages :: "package list"
  data_users :: "user list"
  data_groups :: "group list"

text \<open>
  Modelled from the spec: \<^verbatim>\<open>Stack.update_relationship\<close> is a method of \<^verbatim>\<open>bodhi.models\<close>,
  which is not part of the sources at hand. The specification describes it as a
  reconciliation of the current association set against the complete desired set:
  entities that are newly referenced are added, entities that are no longer referenced
  are removed. \<open>reconcile\<close> computes the two differences and \<open>update_relationship\<close> applies
  them.
\<close>

definition reconcile :: "'a list \<Rightarrow> 'a list \<Rightarrow> 'a list \<times> 'a list" where
  "reconcile current desired =
     (filter (\<lambda>x. x \<notin> set current) desired, filter (\<lambda>x. x \<notin> set desired) current)"

definition update_relationship :: "'a list \<Rightarrow> 'a list \<Rightarrow> 'a list" where
  "update_relationship current desired =
     (let (toAdd, toRemove) = reconcile current desired
      in filter (\<lambda>x. x \<notin> set toRemove) current @ toAdd)"

text \<open>
  Lines 108 to 113: fetch the stack, or create it with the acting user as its only user,
  add it to the session and flush.
\<close>

definition new_stack :: "string \<Rightarrow> user \<Rightarrow> stack" where
  "new_stack n u =
     \<lparr>stack_name = n, stack_description = None, stack_packages = [],
      stack_users = [u], stack_groups = []\<rparr>"

definition fetch_or_create :: "save_data \<Rightarrow> user \<Rightarrow> state \<Rightarrow> stack \<times> state" where
  "fetch_or_create data u s =
     (case Stack_get (data_name data) (db s) of
        Some st \<Rightarrow> (st, s)
      | None \<Rightarrow>
          (let st = new_stack (data_name data) u
           in (st, db_flush (db_add st s))))"

text \<open>
  Lines 119 to 130: the \<^verbatim>\<open>for \<dots> else\<close> loop over the groups of the acting user. It
  leaves by \<^verbatim>\<open>break\<close> at the first group that is also a group of the stack (the result
  \<open>True\<close>); when the groups are exhausted the \<^verbatim>\<open>else\<close> branch runs (the result \<open>False\<close>).
\<close>

fun group_loop :: "group list \<Rightarrow> group list \<Rightarrow> bool" where
  "group_loop [] sgroups = False"
| "group_loop (g # gs) sgroups = (if g \<in> set sgroups then True else group_loop gs sgroups)"

definition forbidden_message :: "user \<Rightarrow> stack \<Rightarrow> string" where
  "forbidden_message u st =
     user_name u @ '' does not have privileges to modify the '' @ stack_name st @ '' stack''"

text \<open>
  Lines 115 to 130. The result \<open>None\<close> lets the view go on; \<open>Some e\<close> is the error that the
  view adds to \<^verbatim>\<open>request.errors\<close> before it returns.
\<close>

definition ownership_check :: "user \<Rightarrow> stack \<Rightarrow> error option" where
  "ownership_check u st =
     (if stack_users st \<noteq> [] \<or> stack_groups st \<noteq> [] then
        (if u \<in> set (stack_users st) then None
         else if group_loop (user_groups u) (stack_groups st) then None
         else Some (HTTPForbidden ''body'' ''name'' (forbidden_message u st)))
      else None)"

text \<open>
  Lines 132 to 139: Python's \<^verbatim>\<open>if desc:\<close> holds for a string that is not empty, and
  fails for \<^verbatim>\<open>None\<close> and for the empty string.
\<close>

definition truthy :: "'a list option \<Rightarrow> bool" where
  "truthy v = (case v of None \<Rightarrow> False | Some xs \<Rightarrow> xs \<noteq> [])"

definition apply_changes :: "save_data \<Rightarrow> stack \<Rightarrow> stack" where
  "apply_changes data st =
     (let st = (if truthy (data_description data)
                then st\<lparr>stack_description := data_description data\<rparr> else st);
          st = st\<lparr>stack_packages := update_relationship (stack_packages st) (data_packages data)\<rparr>;
          st = st\<lparr>stack_users := update_relationship (stack_users st) (data_users data)\<rparr>;
          st = st\<lparr>stack_groups := update_relationship (stack_groups st) (data_groups data)\<rparr>
      in st)"

definition save_stack :: "save_data \<Rightarrow> user \<Rightarrow> state \<Rightarrow> (error + stack) \<times> state" where
  "save_stack data u s =
     (let (st, s1) = fetch_or_create data u s
      in case ownership_check u st of
           Some e \<Rightarrow> (Inl e, s1)
         | None \<Rightarrow>
             (let st' = apply_changes data st;
                  s2 = s1\<lparr>db := store (stack_name st) st' (db s1)\<rparr>;
                  s3 = publish ''stack.save'' st' s2
              in (Inr st', s3)))"

subsection \<open>\<^verbatim>\<open>delete_stack\<close>\<close>

text \<open>
  Lines 147 to 154. The view takes the stack from \<^verbatim>\<open>request.validated\<close>, publishes it,
  deletes it and answers \<^verbatim>\<open>dict(status=u'success')\<close>. It does not read
  \<^verbatim>\<open>request.user\<close>: the acting user is an argument of the model so that statements
  about the caller can be written, and no equation uses it.
\<close>

definition delete_stack :: "user \<Rightarrow> stack \<Rightarrow> state \<Rightarrow> string \<times> state" where
  "delete_stack u st s =
     (let s1 = publish ''stack.delete'' st s;
          s2 = db_delete st s1
      in (''success'', s2))"

subsection \<open>\<^verbatim>\<open>query_stacks\<close>\<close>

record list_data =
  q_name :: "string option"
  q_like :: "string option"
  q_packages :: "package list option"
  q_page :: int
  q_rows_per_page :: int

text \<open>The key \<^verbatim>\<open>total\<close> of the answer is the field \<open>total_count\<close>.\<close>

record list_result =
  stacks :: "stack list"
  page :: int
  pages :: int
  rows_per_page :: int
  total_count :: int

text \<open>
  The query object is a list of rows of the entity \<^verbatim>\<open>Stack\<close>; every method of the query
  builder that the view calls is a function on such lists.

  \<^verbatim>\<open>order_by(Stack.name.desc())\<close> sorts by name, greatest first; names are compared as
  the lists of their characters. The later steps keep the order of the rows.
\<close>

definition order_by_name_desc :: "stack list \<Rightarrow> stack list" where
  "order_by_name_desc rows = rev (sort_key stack_name rows)"

text \<open>
  Two steps of the view are answered by the database and differ from one database to
  another. Line 77 hands a pattern to the \<^verbatim>\<open>LIKE\<close> operator of the database: databases
  differ in whether \<^verbatim>\<open>LIKE\<close> tells upper case from lower case and in whether a
  character of the pattern (the backslash) is an escape. Line 88 hands an offset and a
  limit to the database: databases differ in what they answer when one of the two is
  negative or does not fit 64 bits (an error, or rows). The view does not choose the
  database, so these answers are arguments of the model:
  \<^item> \<open>db_like dbms pattern text\<close> is the truth of \<^verbatim>\<open>text LIKE pattern\<close>;
  \<^item> \<open>db_window_outside dbms n m rows\<close> is the answer to an offset \<open>n\<close> and a
    limit \<open>m\<close> of which one is outside the range from 0 to \<open>2 ^ 63 - 1\<close>: the message
    of the error that the database raises, or the rows that it returns.
\<close>

record database =
  db_like :: "string \<Rightarrow> string \<Rightarrow> bool"
  db_window_outside :: "int \<Rightarrow> int \<Rightarrow> stack list \<Rightarrow> string + stack list"

text \<open>
  The view builds the pattern as \<^verbatim>\<open>'%%%s%%' % like\<close>, which is \<^verbatim>\<open>%\<close>, then the text of
  the request, then \<^verbatim>\<open>%\<close>.
\<close>

definition like_pattern :: "string \<Rightarrow> string" where
  "like_pattern like = ''%'' @ like @ ''%''"

text \<open>
  \<^verbatim>\<open>query.join(Package.stack)\<close> pairs every stack with each of its packages, and the
  filter \<^verbatim>\<open>or_(*[Package.name==pkg.name for pkg in packages])\<close> keeps the pairs whose
  package has one of the requested names. The query still selects the entity
  \<^verbatim>\<open>Stack\<close>, so its rows are the stacks of the pairs that are kept: a stack occurs once
  for each of its packages that passes the filter.
\<close>

definition join_filter :: "package list \<Rightarrow> stack list \<Rightarrow> stack list" where
  "join_filter pkgs query =
     [st. st \<leftarrow> query, p \<leftarrow> stack_packages st,
          list_ex (\<lambda>pkg. package_name p = package_name pkg) pkgs]"

text \<open>Lines 69 to 82: the query before it is counted and cut into pages.\<close>

definition stacks_query :: "database \<Rightarrow> list_data \<Rightarrow> stack list \<Rightarrow> stack list" where
  "stacks_query dbms data rows =
     (let query = order_by_name_desc rows;
          query = (case q_name data of
                     Some n \<Rightarrow> if n \<noteq> [] then filter (\<lambda>st. stack_name st = n) query else query
                   | None \<Rightarrow> query);
          query = (case q_like data of
                     Some l \<Rightarrow> if l \<noteq> []
                       then filter (\<lambda>st. db_like dbms (like_pattern l) (stack_name st)) query
                       else query
                   | None \<Rightarrow> query);
          query = (case q_packages data of
                     Some pkgs \<Rightarrow> if pkgs \<noteq> [] then join_filter pkgs query else query
                   | None \<Rightarrow> query)
      in query)"

text \<open>
  \<^verbatim>\<open>query.offset(n)\<close> and \<^verbatim>\<open>query.limit(n)\<close> drop and keep the first \<open>n\<close> rows, for
  \<open>n\<close> from 0 to \<open>2 ^ 63 - 1\<close>. Outside this range the answer is the one of the
  database; an error of the database reaches the caller of the view as a
  \<^verbatim>\<open>DBAPIError\<close>.

  \<^verbatim>\<open>query.count()\<close> counts the rows of the query. \<^verbatim>\<open>query.all()\<close> returns the entities
  of the rows, each entity once, in the order of its first row.
\<close>

definition offset :: "int \<Rightarrow> 'a list \<Rightarrow> 'a list" where
  "offset n rows = drop (nat n) rows"

definition limit :: "int \<Rightarrow> 'a list \<Rightarrow> 'a list" where
  "limit n rows = take (nat n) rows"

definition in_range :: "int \<Rightarrow> bool" where
  "in_range n = (0 \<le> n \<and> n < 2 ^ 63)"

definition window :: "database \<Rightarrow> int \<Rightarrow> int \<Rightarrow> stack list \<Rightarrow> error + stack list" where
  "window dbms n m rows =
     (if in_range n \<and> in_range m then Inr (limit m (offset n rows))
      else (case db_window_outside dbms n m rows of
              Inl message \<Rightarrow> Inl (DBAPIError message)
            | Inr answer \<Rightarrow> Inr answer))"

definition count :: "'a list \<Rightarrow> int" where
  "count rows = int (length rows)"

definition all_entities :: "'a list \<Rightarrow> 'a list" where
  "all_entities rows = rev (remdups (rev rows))"

text \<open>
  \<^verbatim>\<open>float(rows_per_page)\<close> raises \<^verbatim>\<open>OverflowError\<close> when the integer is too large for a
  floating-point number: the integers that round to \<open>2 ^ 1024\<close> or beyond, which are
  those of magnitude \<open>2 ^ 1024 - 2 ^ 970\<close> or more.
\<close>

definition float_overflow :: "int \<Rightarrow> bool" where
  "float_overflow n = (2 ^ 1024 - 2 ^ 970 \<le> \<bar>n\<bar>)"

text \<open>
  Lines 84 to 96. In \<^verbatim>\<open>total / float(rows_per_page)\<close> the conversion comes first and
  the division second: the division raises \<^verbatim>\<open>ZeroDivisionError\<close> when the page size is
  0. The quotient is a floating-point number in the source and a real number here; the
  two have the same ceiling as long as \<open>total\<close> is below \<open>2 ^ 53\<close>. The offset and the
  limit take effect when \<^verbatim>\<open>query.all()\<close> runs the query.
\<close>

definition query_stacks :: "database \<Rightarrow> list_data \<Rightarrow> state \<Rightarrow> error + list_result" where
  "query_stacks dbms data s =
     (let query = stacks_query dbms data (db s);
          total = count query;
          page = q_page data;
          rows_per_page = q_rows_per_page data
      in if float_overflow rows_per_page then Inl OverflowError
         else if rows_per_page = 0 then Inl ZeroDivisionError
         else
           (let pages = \<lceil>real_of_int total / real_of_int rows_per_page\<rceil>
            in case window dbms (rows_per_page * (page - 1)) rows_per_page query of
                 Inl e \<Rightarrow> Inl e
               | Inr answer \<Rightarrow>
                   Inr \<lparr>stacks = all_entities answer, page = page, pages = pages,
                        rows_per_page = rows_per_page, total_count = total\<rparr>))"

text \<open>
  The requests that the specification admits: a page and a page size of at least 1.
  The bounds on the page size and on the offset keep both within 64 bits.
\<close>

definition valid_page :: "list_data \<Rightarrow> bool" where
  "valid_page data =
     (1 \<le> q_page data \<and> 1 \<le> q_rows_per_page data \<and> q_rows_per_page data < 2 ^ 63
      \<and> q_rows_per_page data * (q_page data - 1) < 2 ^ 63)"

subsection \<open>The invariant of the stacks table\<close>

text \<open>The name of a stack is unique among the rows of the table.\<close>

definition unique_names :: "stack list \<Rightarrow> bool" where
  "unique_names rows = distinct (map stack_name rows)"

text \<open>
  What the specification calls the owners of a stack: its direct users and the members
  of its groups.
\<close>

definition is_owner :: "user \<Rightarrow> stack \<Rightarrow> bool" where
  "is_owner u st =
     (u \<in> set (stack_users st) \<or> list_ex (\<lambda>g. g \<in> set (stack_groups st)) (user_groups u))"

text \<open>
  What the specification calls the matching stacks of a list request: the stored stacks
  that pass each filter that is present.
\<close>

definition name_filter :: "list_data \<Rightarrow> stack \<Rightarrow> bool" where
  "name_filter data st =
     (case q_name data of Some n \<Rightarrow> n = [] \<or> stack_name st = n | None \<Rightarrow> True)"

definition package_filter :: "list_data \<Rightarrow> stack \<Rightarrow> bool" where
  "package_filter data st =
     (case q_packages data of
        Some pkgs \<Rightarrow> pkgs = [] \<or>
          list_ex (\<lambda>p. list_ex (\<lambda>pkg. package_name p = package_name pkg) pkgs) (stack_packages st)
      | None \<Rightarrow> True)"

definition like_filter :: "database \<Rightarrow> list_data \<Rightarrow> stack \<Rightarrow> bool" where
  "like_filter dbms data st =
     (case q_like data of
        Some l \<Rightarrow> l = [] \<or> db_like dbms (like_pattern l) (stack_name st)
      | None \<Rightarrow> True)"

definition substring_filter :: "list_data \<Rightarrow> stack \<Rightarrow> bool" where
  "substring_filter data st =
     (case q_like data of Some l \<Rightarrow> l = [] \<or> sublist l (stack_name st) | None \<Rightarrow> True)"

definition matching_stacks :: "list_data \<Rightarrow> stack list \<Rightarrow> stack list" where
  "matching_stacks data rows =
     filter (\<lambda>st. name_filter data st \<and> substring_filter data st \<and> package_filter data st) rows"


subsection \<open>Example data\<close>

text \<open>
  A database to run the views on. Its \<^verbatim>\<open>LIKE\<close> reads a pattern the way every database
  does: \<^verbatim>\<open>%\<close> stands for any sequence of characters, \<^verbatim>\<open>_\<close> for any single character,
  and any other character for itself. It tells upper case from lower case and has no
  escape character, so it agrees with the databases on the texts in lower case and
  without backslash that the examples use. It refuses an offset or a limit outside the
  range.
\<close>

fun like_match :: "string \<Rightarrow> string \<Rightarrow> bool" where
  "like_match [] [] = True"
| "like_match [] (c # cs) = False"
| "like_match (p # ps) [] = (p = CHR ''%'' \<and> like_match ps [])"
| "like_match (p # ps) (c # cs) =
     (if p = CHR ''%'' then like_match ps (c # cs) \<or> like_match (p # ps) cs
      else (p = CHR ''_'' \<or> p = c) \<and> like_match ps cs)"

definition example_database :: database where
  "example_database =
     \<lparr>db_like = like_match,
      db_window_outside = (\<lambda>n m rows. Inl ''OFFSET or LIMIT out of range'')\<rparr>"

text \<open>
  A small table used to run the views: the stack \<open>web\<close> is owned by \<open>alice\<close> and by the
  group \<open>qa\<close>, of which \<open>bob\<close> is a member; \<open>carol\<close> is neither. The stack \<open>legacy\<close> has
  no owners.
\<close>

definition alice :: user where
  "alice = \<lparr>user_name = ''alice'', user_groups = [Group ''packager'']\<rparr>"

definition bob :: user where
  "bob = \<lparr>user_name = ''bob'', user_groups = [Group ''packager'', Group ''qa'']\<rparr>"

definition carol :: user where
  "carol = \<lparr>user_name = ''carol'', user_groups = [Group ''packager'']\<rparr>"

definition web :: stack where
  "web = \<lparr>stack_name = ''web'', stack_description = Some ''Web things'',
          stack_packages = [Package ''foo'', Package ''bar''],
          stack_users = [alice], stack_groups = [Group ''qa'']\<rparr>"

definition legacy :: stack where
  "legacy = \<lparr>stack_name = ''legacy'', stack_description = None,
             stack_packages = [Package ''foo''], stack_users = [], stack_groups = []\<rparr>"

definition state0 :: state where
  "state0 = \<lparr>db = [legacy, web], trace = []\<rparr>"

definition save_web :: save_data where
  "save_web = \<lparr>data_name = ''web'', data_description = Some ''New text'',
               data_packages = [Package ''bar'', Package ''baz''],
               data_users = [alice, carol], data_groups = []\<rparr>"

definition save_fresh :: save_data where
  "save_fresh = \<lparr>data_name = ''fresh'', data_description = None,
                 data_packages = [Package ''foo''], data_users = [], data_groups = []\<rparr>"

definition list_plain :: list_data where
  "list_plain = \<lparr>q_name = None, q_like = None, q_packages = None,
               q_page = 1, q_rows_per_page = 10\<rparr>"

definition list_foo_bar :: list_data where
  "list_foo_bar = list_plain\<lparr>q_packages := Some [Package ''foo'', Package ''bar'']\<rparr>"

definition list_foo :: list_data where
  "list_foo = list_plain\<lparr>q_packages := Some [Package ''foo'']\<rparr>"

definition list_like :: list_data where
  "list_like = list_plain\<lparr>q_like := Some ''w_b''\<rparr>"

section \<open>Properties of \<^verbatim>\<open>save_stack\<close>\<close>

lemma group_loop_iff: "group_loop gs sgroups \<longleftrightarrow> (\<exists>g \<in> set gs. g \<in> set sgroups)"
  by (induction gs) auto

lemma ownership_check_None_iff:
  "ownership_check u st = None \<longleftrightarrow>
     (stack_users st = [] \<and> stack_groups st = []) \<or> u \<in> set (stack_users st)
       \<or> (\<exists>g \<in> set (user_groups u). g \<in> set (stack_groups st))"
  by (auto simp: ownership_check_def group_loop_iff)

lemma ownership_check_Some:
  "ownership_check u st = Some e \<Longrightarrow>
     e = HTTPForbidden ''body'' ''name'' (forbidden_message u st)"
  by (auto simp: ownership_check_def split: if_splits)

lemma save_stack_unfold:
  "fetch_or_create data u s = (st, s1) \<Longrightarrow>
   save_stack data u s =
     (case ownership_check u st of
        Some e \<Rightarrow> (Inl e, s1)
      | None \<Rightarrow> (Inr (apply_changes data st),
                 publish ''stack.save'' (apply_changes data st)
                   (s1\<lparr>db := store (stack_name st) (apply_changes data st) (db s1)\<rparr>)))"
  by (simp add: save_stack_def Let_def split: option.splits)

lemma fetch_existing:
  "Stack_get (data_name data) (db s) = Some st \<Longrightarrow> fetch_or_create data u s = (st, s)"
  by (simp add: fetch_or_create_def)

lemma fetch_fresh:
  "Stack_get (data_name data) (db s) = None \<Longrightarrow>
   fetch_or_create data u s =
     (new_stack (data_name data) u, db_flush (db_add (new_stack (data_name data) u) s))"
  by (simp add: fetch_or_create_def Let_def)

lemma Stack_get_None_iff: "Stack_get n rows = None \<longleftrightarrow> n \<notin> stack_name ` set rows"
  by (auto simp: Stack_get_def find_None_iff)

lemma Stack_get_Some_name: "Stack_get n rows = Some st \<Longrightarrow> stack_name st = n \<and> st \<in> set rows"
  by (auto simp: Stack_get_def find_Some_iff)

lemma fetched_name: "fetch_or_create data u s = (st, s1) \<Longrightarrow> stack_name st = data_name data"
  by (auto simp: fetch_or_create_def new_stack_def Let_def
      split: option.splits dest: Stack_get_Some_name)

lemma Stack_get_append:
  "Stack_get n (xs @ ys) = (case Stack_get n xs of None \<Rightarrow> Stack_get n ys | Some x \<Rightarrow> Some x)"
  by (induction xs) (auto simp: Stack_get_def)

lemma fetched_stored:
  "fetch_or_create data u s = (st, s1) \<Longrightarrow> Stack_get (data_name data) (db s1) = Some st"
  by (auto simp: fetch_or_create_def new_stack_def Let_def db_add_def db_flush_def
      Stack_get_append split: option.splits) (simp add: Stack_get_def)

lemma apply_changes_name [simp]: "stack_name (apply_changes data st) = stack_name st"
  by (simp add: apply_changes_def Let_def)

lemma names_store:
  "stack_name st = n \<Longrightarrow> map stack_name (store n st rows) = map stack_name rows"
  by (induction rows) auto

lemma Stack_get_store:
  "stack_name st = n \<Longrightarrow> Stack_get n rows \<noteq> None \<Longrightarrow> Stack_get n (store n st rows) = Some st"
  by (induction rows) (auto simp: Stack_get_def)

lemma set_update_relationship: "set (update_relationship current desired) = set desired"
  by (auto simp: update_relationship_def reconcile_def)

lemma set_reconcile:
  "set (fst (reconcile current desired)) = set desired - set current"
  "set (snd (reconcile current desired)) = set current - set desired"
  by (auto simp: reconcile_def)

lemma save_stack_stored:
  assumes "save_stack data u s = (Inr st', s')"
  shows "Stack_get (data_name data) (db s') = Some st'"
proof -
  obtain st s1 where f: "fetch_or_create data u s = (st, s1)"
    by (cases "fetch_or_create data u s")
  from assms save_stack_unfold [OF f]
  have st': "st' = apply_changes data st"
    and s': "db s' = store (stack_name st) st' (db s1)"
    by (auto simp: publish_def split: option.splits)
  from fetched_stored [OF f] fetched_name [OF f] show ?thesis
    by (simp add: s' st' Stack_get_store)
qed

lemma save_stack_unique_names:
  assumes "save_stack data u s = (r, s')" "unique_names (db s)"
  shows "unique_names (db s')"
proof -
  obtain st s1 where f: "fetch_or_create data u s = (st, s1)"
    by (cases "fetch_or_create data u s")
  have u1: "unique_names (db s1)"
    using f assms(2)
    by (auto simp: fetch_or_create_def Let_def db_add_def db_flush_def unique_names_def
        new_stack_def Stack_get_None_iff split: option.splits)
  from assms(1) save_stack_unfold [OF f]
  have "db s' = db s1 \<or> db s' = store (stack_name st) (apply_changes data st) (db s1)"
    by (auto simp: publish_def split: option.splits)
  with u1 show ?thesis
    by (auto simp: unique_names_def names_store)
qed

text \<open>
  C1. A save goes on to change the stack exactly when the check lets the acting user
  through. On a stack that has users or groups this is the case if and only if the
  acting user is one of the users of the stack or one of the user's groups is a group of
  the stack; on a stack that has neither users nor groups every acting user goes on.
  Here \<open>st\<close> is the stack on which the check runs: the one fetched, or the one just
  created.
\<close>

theorem save_stack_proceeds_iff_owner:
  assumes "fetch_or_create data u s = (st, s1)"
  shows "(stack_users st \<noteq> [] \<or> stack_groups st \<noteq> [] \<longrightarrow>
            ((\<exists>st' s'. save_stack data u s = (Inr st', s')) \<longleftrightarrow>
               u \<in> set (stack_users st) \<or> (\<exists>g \<in> set (user_groups u). g \<in> set (stack_groups st))))
       \<and> (stack_users st = [] \<and> stack_groups st = [] \<longrightarrow>
            (\<exists>st' s'. save_stack data u s = (Inr st', s')))"
proof (cases "ownership_check u st")
  case None
  then show ?thesis
    using save_stack_unfold [OF assms] ownership_check_None_iff [of u st] by auto
next
  case (Some e)
  then show ?thesis
    using save_stack_unfold [OF assms] ownership_check_None_iff [of u st] by auto
qed

lemmas example_defs =
  alice_def bob_def carol_def web_def legacy_def state0_def save_web_def save_fresh_def
  list_plain_def list_foo_bar_def list_foo_def list_like_def example_database_def

theorem save_stack_proceeds_iff_owner_witness:
  "fetch_or_create save_web bob state0 = (web, state0)
   \<and> (\<exists>st' s'. save_stack save_web bob state0 = (Inr st', s'))
   \<and> \<not> (\<exists>st' s'. save_stack save_web carol state0 = (Inr st', s'))
   \<and> (\<exists>st' s'. save_stack (save_web\<lparr>data_name := ''legacy''\<rparr>) carol state0 = (Inr st', s'))"
proof -
  have b: "fetch_or_create save_web bob state0 = (web, state0)"
    by (simp add: fetch_or_create_def Stack_get_def example_defs)
  have c: "fetch_or_create save_web carol state0 = (web, state0)"
    by (simp add: fetch_or_create_def Stack_get_def example_defs)
  have l: "fetch_or_create (save_web\<lparr>data_name := ''legacy''\<rparr>) carol state0 = (legacy, state0)"
    by (simp add: fetch_or_create_def Stack_get_def example_defs)
  from save_stack_proceeds_iff_owner [OF b] save_stack_proceeds_iff_owner [OF c]
    save_stack_proceeds_iff_owner [OF l] b
  show ?thesis
    by (simp add: example_defs)
qed

text \<open>
  C2. When the stack exists and has users or groups, and the acting user is not one of
  its users and has no group among its groups, the save fails with the Forbidden error,
  whose message names the user and the stack, and the state after the call is the state
  before it: the rows of the table, and with them the description, packages, users and
  groups of the stack, are unchanged, and the trace has no new entry, so that nothing
  is published.
\<close>

theorem save_stack_forbidden_atomic:
  assumes "Stack_get (data_name data) (db s) = Some st"
    and "stack_users st \<noteq> [] \<or> stack_groups st \<noteq> []"
    and "u \<notin> set (stack_users st)"
    and "\<forall>g \<in> set (user_groups u). g \<notin> set (stack_groups st)"
  shows "save_stack data u s =
           (Inl (HTTPForbidden ''body'' ''name''
                  (user_name u @ '' does not have privileges to modify the ''
                     @ stack_name st @ '' stack'')), s)"
proof -
  from assms(2-4) have "ownership_check u st \<noteq> None"
    by (simp add: ownership_check_None_iff)
  then obtain e where e: "ownership_check u st = Some e"
    by auto
  from ownership_check_Some [OF e] e save_stack_unfold [OF fetch_existing [OF assms(1)]]
  show ?thesis
    by (simp add: forbidden_message_def)
qed

theorem save_stack_forbidden_atomic_witness:
  "save_stack save_web carol state0 =
     (Inl (HTTPForbidden ''body'' ''name''
            ''carol does not have privileges to modify the web stack''), state0)
   \<and> Stack_get ''web'' (db state0) = Some web
   \<and> trace state0 = []"
proof -
  have g: "Stack_get (data_name save_web) (db state0) = Some web"
    by (simp add: Stack_get_def example_defs)
  have o: "stack_users web \<noteq> [] \<or> stack_groups web \<noteq> []"
    by (simp add: web_def)
  have n: "carol \<notin> set (stack_users web)"
    by (simp add: example_defs)
  have m: "\<forall>g \<in> set (user_groups carol). g \<notin> set (stack_groups web)"
    by (simp add: example_defs)
  from save_stack_forbidden_atomic [OF g o n m] g show ?thesis
    by (simp add: example_defs)
qed

text \<open>
  C3. When no stack has the requested name, the save creates one stack with that name
  whose only user is the acting user, adds it to the table and flushes, all before the
  check; the check then lets the acting user through, so the save returns a stack, and
  the table holds exactly one stack of that name, before the check and after the save.
\<close>

theorem save_stack_creates_fresh:
  assumes "Stack_get (data_name data) (db s) = None"
    and "fetch_or_create data u s = (st, s1)"
  shows "stack_name st = data_name data \<and> stack_users st = [u]
       \<and> db s1 = db s @ [st] \<and> trace s1 = trace s @ [DbAdd st, DbFlush]
       \<and> length (filter (\<lambda>x. stack_name x = data_name data) (db s1)) = 1
       \<and> ownership_check u st = None
       \<and> (\<exists>st' s'. save_stack data u s = (Inr st', s')
            \<and> length (filter (\<lambda>x. stack_name x = data_name data) (db s')) = 1)"
proof -
  from fetch_fresh [OF assms(1), of u] assms(2)
  have st: "st = new_stack (data_name data) u" and s1: "s1 = db_flush (db_add st s)"
    by auto
  have none: "filter (\<lambda>x. stack_name x = data_name data) (db s) = []"
    using assms(1) by (force simp: Stack_get_None_iff filter_empty_conv)
  have one: "length (filter (\<lambda>x. stack_name x = data_name data) (db s1)) = 1"
    by (simp add: s1 db_add_def db_flush_def none) (simp add: st new_stack_def)
  have ok: "ownership_check u st = None"
    by (simp add: ownership_check_def st new_stack_def)
  let ?st' = "apply_changes data st"
  let ?s' = "publish ''stack.save'' ?st' (s1\<lparr>db := store (stack_name st) ?st' (db s1)\<rparr>)"
  have save: "save_stack data u s = (Inr ?st', ?s')"
    using save_stack_unfold [OF assms(2)] ok by simp
  have "map stack_name (db ?s') = map stack_name (db s1)"
    by (simp add: publish_def names_store)
  then have "length (filter (\<lambda>n. n = data_name data) (map stack_name (db ?s')))
      = length (filter (\<lambda>n. n = data_name data) (map stack_name (db s1)))"
    by simp
  then have one': "length (filter (\<lambda>x. stack_name x = data_name data) (db ?s')) = 1"
    using one by (simp add: filter_map comp_def)
  show ?thesis
    using save one one' ok
    by (simp add: s1 db_add_def db_flush_def) (simp add: st new_stack_def)
qed

theorem save_stack_creates_fresh_witness:
  "Stack_get ''fresh'' (db state0) = None
   \<and> (\<exists>st s1. fetch_or_create save_fresh carol state0 = (st, s1)
        \<and> stack_users st = [carol] \<and> db s1 = [legacy, web, st])
   \<and> (\<exists>st' s'. save_stack save_fresh carol state0 = (Inr st', s'))"
proof -
  have g: "Stack_get (data_name save_fresh) (db state0) = None"
    by (simp add: Stack_get_def example_defs)
  obtain st s1 where f: "fetch_or_create save_fresh carol state0 = (st, s1)"
    by (cases "fetch_or_create save_fresh carol state0")
  from save_stack_creates_fresh [OF g f]
  have "stack_users st = [carol] \<and> db s1 = db state0 @ [st]
      \<and> (\<exists>st' s'. save_stack save_fresh carol state0 = (Inr st', s'))"
    by blast
  moreover have "db state0 = [legacy, web]" "data_name save_fresh = ''fresh''"
    by (simp_all add: state0_def save_fresh_def)
  ultimately show ?thesis
    using g f by auto
qed

text \<open>
  C4. After a save that returns a stack, the packages, the users and the groups of that
  stack are, as sets, the packages, users and groups of the request, and the stack
  returned is the one stored under the name.
\<close>

theorem save_stack_sets_relationships:
  assumes "save_stack data u s = (Inr st', s')"
  shows "set (stack_packages st') = set (data_packages data)
       \<and> set (stack_users st') = set (data_users data)
       \<and> set (stack_groups st') = set (data_groups data)
       \<and> Stack_get (data_name data) (db s') = Some st'"
proof -
  obtain st s1 where f: "fetch_or_create data u s = (st, s1)"
    by (cases "fetch_or_create data u s")
  from assms save_stack_unfold [OF f] have "st' = apply_changes data st"
    by (auto split: option.splits)
  then show ?thesis
    using save_stack_stored [OF assms]
    by (simp add: apply_changes_def Let_def set_update_relationship)
qed

theorem save_stack_sets_relationships_witness:
  "\<exists>st' s'. save_stack save_web alice state0 = (Inr st', s')
     \<and> set (stack_packages st') = {Package ''bar'', Package ''baz''}
     \<and> set (stack_users st') = {alice, carol}
     \<and> set (stack_groups st') = {}
     \<and> Stack_get ''web'' (db s') = Some st'"
proof -
  have f: "fetch_or_create save_web alice state0 = (web, state0)"
    by (simp add: fetch_or_create_def Stack_get_def example_defs)
  have "ownership_check alice web = None"
    by (simp add: ownership_check_def example_defs)
  with save_stack_unfold [OF f] obtain st' s'
    where s: "save_stack save_web alice state0 = (Inr st', s')"
    by simp
  from save_stack_sets_relationships [OF s] s show ?thesis
    by (simp add: save_web_def)
qed

text \<open>
  C5. After a save that returns a stack, the stack returned is the stack stored under
  the name, and: when the request carries a description that is not empty, the
  description of the stack is that text; when the description of the request is empty
  or absent, the description is the one the stack had before the changes (for a stack
  created by this save: none).
\<close>

theorem save_stack_description:
  assumes "fetch_or_create data u s = (st, s1)"
    and "save_stack data u s = (Inr st', s')"
  shows "Stack_get (data_name data) (db s') = Some st'
       \<and> (\<forall>d. data_description data = Some d \<and> d \<noteq> [] \<longrightarrow> stack_description st' = Some d)
       \<and> (data_description data = None \<or> data_description data = Some []
            \<longrightarrow> stack_description st' = stack_description st)"
proof -
  from assms(2) save_stack_unfold [OF assms(1)] have "st' = apply_changes data st"
    by (auto split: option.splits)
  then show ?thesis
    using save_stack_stored [OF assms(2)]
    by (auto simp: apply_changes_def Let_def truthy_def)
qed

theorem save_stack_description_witness:
  "(\<exists>st' s'. save_stack save_web alice state0 = (Inr st', s')
      \<and> Stack_get ''web'' (db s') = Some st'
      \<and> stack_description st' = Some ''New text'')
   \<and> (\<exists>st' s'. save_stack (save_web\<lparr>data_description := Some []\<rparr>) alice state0 = (Inr st', s')
      \<and> Stack_get ''web'' (db s') = Some st'
      \<and> stack_description st' = Some ''Web things'')
   \<and> (\<exists>st' s'. save_stack (save_web\<lparr>data_description := None\<rparr>) alice state0 = (Inr st', s')
      \<and> Stack_get ''web'' (db s') = Some st'
      \<and> stack_description st' = Some ''Web things'')"
proof -
  have o: "ownership_check alice web = None"
    by (simp add: ownership_check_def example_defs)
  have f1: "fetch_or_create save_web alice state0 = (web, state0)"
    by (simp add: fetch_or_create_def Stack_get_def example_defs)
  have f2: "fetch_or_create (save_web\<lparr>data_description := Some []\<rparr>) alice state0 = (web, state0)"
    by (simp add: fetch_or_create_def Stack_get_def example_defs)
  have f3: "fetch_or_create (save_web\<lparr>data_description := None\<rparr>) alice state0 = (web, state0)"
    by (simp add: fetch_or_create_def Stack_get_def example_defs)
  from save_stack_unfold [OF f1] o obtain a1 b1
    where s1: "save_stack save_web alice state0 = (Inr a1, b1)" by simp
  from save_stack_unfold [OF f2] o obtain a2 b2
    where s2: "save_stack (save_web\<lparr>data_description := Some []\<rparr>) alice state0 = (Inr a2, b2)"
    by simp
  from save_stack_unfold [OF f3] o obtain a3 b3
    where s3: "save_stack (save_web\<lparr>data_description := None\<rparr>) alice state0 = (Inr a3, b3)"
    by simp
  from save_stack_description [OF f1 s1] save_stack_description [OF f2 s2]
    save_stack_description [OF f3 s3] s1 s2 s3
  show ?thesis
    by (simp add: save_web_def web_def)
qed

section \<open>Properties of \<^verbatim>\<open>delete_stack\<close>\<close>

lemma delete_stack_any_caller: "delete_stack u st s = delete_stack u' st s"
  by (simp add: delete_stack_def)

lemma remove1_name_gone:
  "distinct (map stack_name rows) \<Longrightarrow> st \<in> set rows \<Longrightarrow>
     stack_name st \<notin> stack_name ` set (remove1 st rows)"
proof (induction rows)
  case Nil
  then show ?case by simp
next
  case (Cons a rows)
  show ?case
  proof (cases "a = st")
    case True
    with Cons.prems show ?thesis by simp
  next
    case False
    with Cons.prems have "st \<in> set rows" "stack_name a \<notin> stack_name ` set rows"
      by auto
    then have "stack_name st \<noteq> stack_name a"
      by (metis imageI)
    with Cons False \<open>st \<in> set rows\<close> show ?thesis
      by simp
  qed
qed

lemma Stack_get_unique:
  "distinct (map stack_name rows) \<Longrightarrow> st \<in> set rows \<Longrightarrow>
     Stack_get (stack_name st) rows = Some st"
  by (induction rows) (auto simp: Stack_get_def)

lemma delete_stack_unique_names:
  "unique_names (db s) \<Longrightarrow> unique_names (db (snd (delete_stack u st s)))"
  by (simp add: delete_stack_def db_delete_def publish_def unique_names_def
      distinct_map distinct_remove1 inj_on_def set_remove1_eq)

text \<open>
  C6. The claim asks that a delete by a caller who is not an owner of the stack fails
  with Forbidden. The view does not look at the caller: run for \<open>carol\<close>, who is not a
  user of the stack \<open>web\<close> and has none of its groups, it publishes the stack, deletes
  it and answers success, where the same caller's save of that stack is refused.
\<close>

theorem delete_stack_by_non_owner:
  "\<not> is_owner carol web
   \<and> delete_stack carol web state0 =
       (''success'', \<lparr>db = [legacy], trace = [Publish ''stack.delete'' web, DbDelete web]\<rparr>)
   \<and> fst (save_stack save_web carol state0) =
       Inl (HTTPForbidden ''body'' ''name''
             ''carol does not have privileges to modify the web stack'')"
  by (simp add: is_owner_def delete_stack_def publish_def db_delete_def save_stack_def
      fetch_or_create_def Stack_get_def ownership_check_def forbidden_message_def
      example_defs)

text \<open>
  C7. A delete of a stored stack, in a table whose names are unique, answers success.
  It first publishes \<^verbatim>\<open>stack.delete\<close> with the stack as it is stored under its name,
  hence with its packages, users and groups, and then deletes it: the publication comes
  before the deletion in the trace. Afterwards no stack is found under the name.
\<close>

theorem delete_stack_publishes_then_deletes:
  assumes "st \<in> set (db s)" and "unique_names (db s)"
  shows "\<exists>s'. delete_stack u st s = (''success'', s')
           \<and> Stack_get (stack_name st) (db s) = Some st
           \<and> trace s' = trace s @ [Publish ''stack.delete'' st, DbDelete st]
           \<and> db s' = remove1 st (db s)
           \<and> Stack_get (stack_name st) (db s') = None"
proof -
  from assms have "stack_name st \<notin> stack_name ` set (remove1 st (db s))"
    by (simp add: unique_names_def remove1_name_gone)
  then have "Stack_get (stack_name st) (remove1 st (db s)) = None"
    by (simp add: Stack_get_None_iff)
  moreover from assms have "Stack_get (stack_name st) (db s) = Some st"
    by (simp add: unique_names_def Stack_get_unique)
  ultimately show ?thesis
    by (simp add: delete_stack_def publish_def db_delete_def)
qed

theorem delete_stack_publishes_then_deletes_witness:
  "web \<in> set (db state0) \<and> unique_names (db state0)
   \<and> (\<exists>s'. delete_stack alice web state0 = (''success'', s')
        \<and> trace s' = [Publish ''stack.delete'' web, DbDelete web]
        \<and> db s' = [legacy]
        \<and> Stack_get ''web'' (db s') = None)
   \<and> stack_packages web = [Package ''foo'', Package ''bar'']"
proof -
  have m: "web \<in> set (db state0)"
    by (simp add: state0_def)
  have n: "unique_names (db state0)"
    by (simp add: unique_names_def example_defs)
  have "remove1 web (db state0) = [legacy]" "trace state0 = []" "stack_name web = ''web''"
    by (simp_all add: example_defs)
  with delete_stack_publishes_then_deletes [OF m n, of alice] m n show ?thesis
    by (auto simp: web_def)
qed

section \<open>Properties of \<^verbatim>\<open>query_stacks\<close>\<close>

lemma set_order_by [simp]: "set (order_by_name_desc rows) = set rows"
  by (simp add: order_by_name_desc_def)









lemma set_all_entities [simp]: "set (all_entities xs) = set xs"
  by (simp add: all_entities_def)

lemma all_entities_distinct: "distinct xs \<Longrightarrow> all_entities xs = xs"
  by (simp add: all_entities_def distinct_remdups_id)

lemma float_overflow_small: "\<bar>n\<bar> < 2 ^ 63 \<Longrightarrow> \<not> float_overflow n"
  by (simp add: float_overflow_def)

lemma window_in_range:
  "in_range n \<Longrightarrow> in_range m \<Longrightarrow> window dbms n m rows = Inr (limit m (offset n rows))"
  by (simp add: window_def)

lemma window_error: "window dbms n m rows = Inl e \<Longrightarrow> \<exists>message. e = DBAPIError message"
  by (auto simp: window_def split: if_splits sum.splits)

lemma valid_page_in_range:
  assumes "valid_page data"
  shows "in_range (q_rows_per_page data * (q_page data - 1))" and "in_range (q_rows_per_page data)"
    and "\<not> float_overflow (q_rows_per_page data)" and "q_rows_per_page data \<noteq> 0"
proof -
  from assms have "0 \<le> q_rows_per_page data * (q_page data - 1)"
    by (simp add: valid_page_def)
  with assms show "in_range (q_rows_per_page data * (q_page data - 1))"
    by (simp add: valid_page_def in_range_def)
  from assms show "in_range (q_rows_per_page data)" "q_rows_per_page data \<noteq> 0"
    by (auto simp: valid_page_def in_range_def)
  from assms have "\<bar>q_rows_per_page data\<bar> < 2 ^ 63"
    by (simp add: valid_page_def)
  then show "\<not> float_overflow (q_rows_per_page data)"
    by (rule float_overflow_small)
qed

text \<open>The answer of the view to a request with a valid page.\<close>

lemma query_stacks_valid:
  assumes "valid_page data"
  shows "query_stacks dbms data s =
    Inr \<lparr>stacks = all_entities (limit (q_rows_per_page data)
            (offset (q_rows_per_page data * (q_page data - 1)) (stacks_query dbms data (db s)))),
         page = q_page data,
         pages = \<lceil>real_of_int (count (stacks_query dbms data (db s)))
                   / real_of_int (q_rows_per_page data)\<rceil>,
         rows_per_page = q_rows_per_page data,
         total_count = count (stacks_query dbms data (db s))\<rparr>"
  using valid_page_in_range [OF assms]
  by (simp add: query_stacks_def Let_def window_in_range)

lemma query_stacks_meta:
  assumes "query_stacks dbms data s = Inr r"
  shows "page r = q_page data" and "rows_per_page r = q_rows_per_page data"
    and "total_count r = int (length (stacks_query dbms data (db s)))"
    and "pages r = \<lceil>real_of_int (total_count r) / real_of_int (rows_per_page r)\<rceil>"
  using assms
  by (auto simp: query_stacks_def Let_def count_def split: if_splits sum.splits)

lemma query_stacks_page:
  assumes "valid_page data" and "query_stacks dbms data s = Inr r"
  shows "stacks r = all_entities (limit (q_rows_per_page data)
            (offset (q_rows_per_page data * (q_page data - 1)) (stacks_query dbms data (db s))))"
  using assms(2) unfolding query_stacks_valid [OF assms(1)] by auto

lemma page_beyond_last:
  assumes "valid_page data" "query_stacks dbms data s = Inr r" "pages r < q_page data"
  shows "stacks r = []"
proof -
  let ?n = "q_rows_per_page data"
  let ?t = "int (length (stacks_query dbms data (db s)))"
  from assms(1) have n: "1 \<le> ?n"
    by (simp add: valid_page_def)
  from query_stacks_meta [OF assms(2)] assms(3)
  have "\<lceil>real_of_int ?t / real_of_int ?n\<rceil> < q_page data"
    by simp
  then have "real_of_int ?t / real_of_int ?n \<le> real_of_int (q_page data - 1)"
    by (simp add: ceiling_less_iff)
  with n have "real_of_int ?t \<le> real_of_int (q_page data - 1) * real_of_int ?n"
    by (simp add: pos_divide_le_eq)
  then have "?t \<le> ?n * (q_page data - 1)"
    by (metis mult.commute of_int_le_iff of_int_mult)
  then show ?thesis
    using query_stacks_page [OF assms(1,2)]
    by (simp add: offset_def limit_def all_entities_def)
qed

lemma total_without_packages:
  assumes "q_packages data = None \<or> q_packages data = Some []"
  shows "stacks_query dbms data rows =
     filter (\<lambda>st. name_filter data st \<and> like_filter dbms data st) (order_by_name_desc rows)"
  using assms
  by (auto simp: stacks_query_def Let_def name_filter_def like_filter_def
      split: option.splits intro: filter_cong)

lemma length_filter_order_by:
  "length (filter P (order_by_name_desc rows)) = length (filter P rows)"
proof -
  have "filter P (order_by_name_desc rows) = rev (sort_key stack_name (filter P rows))"
    by (simp add: order_by_name_desc_def filter_sort flip: rev_filter)
  then show ?thesis
    by simp
qed

lemma distinct_without_packages:
  assumes "q_packages data = None \<or> q_packages data = Some []" and "unique_names rows"
  shows "distinct (stacks_query dbms data rows)"
proof -
  from assms(2) have "distinct rows"
    by (simp add: unique_names_def distinct_map)
  then show ?thesis
    by (simp add: total_without_packages [OF assms(1)] order_by_name_desc_def)
qed

text \<open>
  Without a package filter, on a table with unique names and for a valid page, the
  pagination is the one of the specification: the total is the number of stored stacks
  that pass the filters, the number of pages is its quotient by the page size, rounded
  up, the stacks returned are the rows of the requested page, and a page beyond the
  last one is empty.
\<close>

lemma pagination_without_packages:
  assumes "q_packages data = None \<or> q_packages data = Some []" and "unique_names (db s)"
    and "valid_page data" and "query_stacks dbms data s = Inr r"
  shows "total_count r =
           int (length (filter (\<lambda>st. name_filter data st \<and> like_filter dbms data st) (db s)))"
    and "pages r = \<lceil>real_of_int (total_count r) / real_of_int (rows_per_page r)\<rceil>"
    and "stacks r = take (nat (q_rows_per_page data))
           (drop (nat (q_rows_per_page data * (q_page data - 1)))
             (stacks_query dbms data (db s)))"
    and "pages r < q_page data \<Longrightarrow> stacks r = []"
proof -
  show "total_count r =
      int (length (filter (\<lambda>st. name_filter data st \<and> like_filter dbms data st) (db s)))"
    using query_stacks_meta(3) [OF assms(4)]
    by (simp add: total_without_packages [OF assms(1)] length_filter_order_by)
  show "pages r = \<lceil>real_of_int (total_count r) / real_of_int (rows_per_page r)\<rceil>"
    by (rule query_stacks_meta(4) [OF assms(4)])
  have "distinct (take (nat (q_rows_per_page data))
      (drop (nat (q_rows_per_page data * (q_page data - 1))) (stacks_query dbms data (db s))))"
    by (intro distinct_take distinct_drop distinct_without_packages assms)
  then show "stacks r = take (nat (q_rows_per_page data))
      (drop (nat (q_rows_per_page data * (q_page data - 1))) (stacks_query dbms data (db s)))"
    using query_stacks_page [OF assms(3,4)]
    by (simp add: limit_def offset_def all_entities_distinct)
  show "stacks r = []" if "pages r < q_page data"
    using page_beyond_last [OF assms(3,4) that] .
qed

text \<open>
  The example of the specification: 25 rows, 10 to the page, give 3 pages; the third
  page has 5 rows and the fourth has none.
\<close>

lemma pagination_example:
  assumes "length (stacks_query dbms data (db s)) = 25" and "q_rows_per_page data = 10"
    and "1 \<le> q_page data" and "q_page data \<le> 4" and "query_stacks dbms data s = Inr r"
  shows "total_count r = 25 \<and> pages r = 3
       \<and> (q_page data = 3 \<longrightarrow>
            length (limit 10 (offset (10 * (q_page data - 1)) (stacks_query dbms data (db s)))) = 5)
       \<and> (q_page data = 4 \<longrightarrow> stacks r = [])"
proof -
  from assms(2-4) have v: "valid_page data"
    by (simp add: valid_page_def)
  from query_stacks_meta [OF assms(5)] query_stacks_page [OF v assms(5)] assms(1,2)
  show ?thesis
    by (simp add: limit_def offset_def all_entities_def)
qed

lemma stacks_query_foo_bar: "stacks_query dbms list_foo_bar (db state0) = [web, web, legacy]"
  by (simp add: stacks_query_def order_by_name_desc_def join_filter_def example_defs)


text \<open>
  C8. The claim asks that \<open>total\<close> is the number of matching stacks. With a package
  filter the query has one row for each pair of a stack and one of its packages that
  passes the filter, and \<open>total\<close> counts these rows: for the request of the packages
  \<open>foo\<close> and \<open>bar\<close>, two stacks match, and the view answers the two stacks with a total
  of 3. With one row to the page, the same request has three pages, and the first two
  both hold the stack \<open>web\<close>. This is so on every database.
\<close>

theorem query_stacks_total_counts_join_rows:
  "matching_stacks list_foo_bar (db state0) = [legacy, web]
   \<and> query_stacks dbms list_foo_bar state0 =
       Inr \<lparr>stacks = [web, legacy], page = 1, pages = 1, rows_per_page = 10, total_count = 3\<rparr>
   \<and> query_stacks dbms (list_foo_bar\<lparr>q_page := 1, q_rows_per_page := 1\<rparr>) state0 =
       Inr \<lparr>stacks = [web], page = 1, pages = 3, rows_per_page = 1, total_count = 3\<rparr>
   \<and> query_stacks dbms (list_foo_bar\<lparr>q_page := 2, q_rows_per_page := 1\<rparr>) state0 =
       Inr \<lparr>stacks = [web], page = 2, pages = 3, rows_per_page = 1, total_count = 3\<rparr>"
proof -
  have q: "stacks_query dbms (list_foo_bar\<lparr>q_page := a, q_rows_per_page := b\<rparr>) (db state0)
      = [web, web, legacy]" for a b
    using stacks_query_foo_bar [of dbms] by (simp add: stacks_query_def)
  have v: "valid_page list_foo_bar"
    "valid_page (list_foo_bar\<lparr>q_page := 1, q_rows_per_page := 1\<rparr>)"
    "valid_page (list_foo_bar\<lparr>q_page := 2, q_rows_per_page := 1\<rparr>)"
    by (simp_all add: valid_page_def example_defs)
  have d: "web \<noteq> legacy"
    by (simp add: example_defs)
  have "matching_stacks list_foo_bar (db state0) = [legacy, web]"
    by (simp add: matching_stacks_def name_filter_def substring_filter_def
        package_filter_def example_defs)
  moreover have "query_stacks dbms list_foo_bar state0 =
       Inr \<lparr>stacks = [web, legacy], page = 1, pages = 1, rows_per_page = 10, total_count = 3\<rparr>"
    unfolding query_stacks_valid [OF v(1)] stacks_query_foo_bar using d
    by (simp add: count_def limit_def offset_def all_entities_def) (simp add: example_defs)
  moreover have "query_stacks dbms (list_foo_bar\<lparr>q_page := 1, q_rows_per_page := 1\<rparr>) state0 =
       Inr \<lparr>stacks = [web], page = 1, pages = 3, rows_per_page = 1, total_count = 3\<rparr>"
    unfolding query_stacks_valid [OF v(2)] q
    by (simp add: count_def limit_def offset_def all_entities_def)
  moreover have "query_stacks dbms (list_foo_bar\<lparr>q_page := 2, q_rows_per_page := 1\<rparr>) state0 =
       Inr \<lparr>stacks = [web], page = 2, pages = 3, rows_per_page = 1, total_count = 3\<rparr>"
    unfolding query_stacks_valid [OF v(3)] q
    by (simp add: count_def limit_def offset_def all_entities_def)
  ultimately show ?thesis
    by blast
qed

text \<open>
  C10. The view divides by the page size without a check of its own: with a page size
  of 0 it raises \<^verbatim>\<open>ZeroDivisionError\<close>, whatever the rest of the request, the table and
  the database are, and this is the only page size with which it raises that error.
\<close>

theorem query_stacks_zero_division:
  "(q_rows_per_page data = 0 \<longrightarrow> query_stacks dbms data s = Inl ZeroDivisionError)
   \<and> (query_stacks dbms data s = Inl ZeroDivisionError \<longrightarrow> q_rows_per_page data = 0)"
proof -
  have "\<not> float_overflow 0"
    by (simp add: float_overflow_small)
  then have "q_rows_per_page data = 0 \<longrightarrow> query_stacks dbms data s = Inl ZeroDivisionError"
    by (simp add: query_stacks_def Let_def)
  moreover have "query_stacks dbms data s = Inl ZeroDivisionError \<longrightarrow> q_rows_per_page data = 0"
    by (auto simp: query_stacks_def Let_def split: if_splits sum.splits dest: window_error)
  ultimately show ?thesis
    by blast
qed

theorem query_stacks_zero_division_witness:
  "query_stacks example_database (list_plain\<lparr>q_rows_per_page := 0\<rparr>) state0
     = Inl ZeroDivisionError
   \<and> query_stacks example_database list_plain state0 \<noteq> Inl ZeroDivisionError
   \<and> query_stacks example_database (list_plain\<lparr>q_rows_per_page := - 1\<rparr>) state0
       \<noteq> Inl ZeroDivisionError"
  using query_stacks_zero_division [of "list_plain\<lparr>q_rows_per_page := 0\<rparr>" example_database state0]
    query_stacks_zero_division [of list_plain example_database state0]
    query_stacks_zero_division [of "list_plain\<lparr>q_rows_per_page := - 1\<rparr>" example_database state0]
  by (simp add: list_plain_def)




end
